theory Spec2Isabelle
  imports Complex_Main
begin

section \<open>The image classification service of \<open>python_service/image_classifier.py\<close>\<close>

text \<open>
  The service is a Flask application with three routes (\<open>/health\<close>, \<open>/classify\<close>,
  \<open>/classify_url\<close>), one global variable \<open>classifier\<close> and a start-up block. The
  handlers are embedded as functions from the global state and the request to the
  response and the new state. An exception is a value: every library call returns
  \<open>exn + 'a\<close>, and each handler's \<open>try ... except Exception\<close> is the case split on
  \<open>Inl\<close>. The libraries the handlers call (transformers, PIL, requests, the process
  environment) are not part of the repository; their behaviour is the record \<open>env\<close>,
  a parameter of every function. Writes to standard output (\<open>print\<close>) are left out.
\<close>

subsection \<open>Values\<close>

text \<open>An exception object: its class name and \<open>str(e)\<close>.\<close>

datatype exn = Exn (cls: string) (str: string)

type_synonym bytes = string

text \<open>
  What \<open>request.get_json()\<close> can return: \<open>None\<close>, \<open>bool\<close>, \<open>int\<close>, \<open>float\<close>,
  \<open>str\<close>, \<open>list\<close> or \<open>dict\<close>.
\<close>

datatype json =
    JNull
  | JBool bool
  | JInt int
  | JFloat real
  | JString string
  | JArray "json list"
  | JObject "string \<Rightarrow> json option"

text \<open>A decoded PIL image: its colour mode and its pixel data.\<close>

record image =
  mode :: string
  pixels :: "nat list"

text \<open>One entry of the list the pipeline returns: \<open>{'label': ..., 'score': ...}\<close>.\<close>

record raw_result =
  label :: string
  score :: real

type_synonym pipeline_fn = "image \<Rightarrow> exn + raw_result list"

text \<open>The object \<open>requests.get\<close> returns.\<close>

record http_response =
  status_code :: nat
  content :: bytes

subsection \<open>Requests and responses\<close>

text \<open>
  A request to \<open>/classify\<close>: the parts of its multipart body, each a field name and
  the bytes sent under it. Evaluating \<open>request.files\<close> parses them, which is the
  library's work (\<open>request_files\<close> below) and can raise. A request to \<open>/classify_url\<close>:
  what \<open>request.get_json()\<close> does on it (it raises on a body it cannot parse).
\<close>

record upload_request =
  form :: "(string \<times> bytes) list"

record url_request =
  get_json :: "exn + json"

datatype request = Health | Classify upload_request | Classify_url url_request

record label_entry =
  description :: string
  confidence :: real

record health_body =
  status :: string
  model_loaded :: bool

record error_body =
  error :: string
  labels :: "label_entry list"

record envelope =
  labels :: "label_entry list"
  colors :: "string list"
  objects :: "label_entry list"
  confidence :: real
  source :: string
  model :: string

datatype body = Health_body health_body | Error_body error_body | Envelope envelope

text \<open>A Flask return value: the JSON body and the HTTP status (200 when none is given).\<close>

type_synonym response = "body \<times> nat"

subsection \<open>The libraries and the global state\<close>

text \<open>
  \<open>request_files\<close> is \<open>request.files\<close> on a multipart body: the exception the parser
  raises, or the uploaded files by field name, each given by the bytes its \<open>read()\<close>
  returns.
\<close>

record env =
  pipeline :: "string \<Rightarrow> string \<Rightarrow> int \<Rightarrow> exn + pipeline_fn"
  request_files :: "(string \<times> bytes) list \<Rightarrow> exn + (string \<Rightarrow> bytes option)"
  image_open :: "bytes \<Rightarrow> exn + image"
  convert :: "image \<Rightarrow> string \<Rightarrow> exn + image"
  requests_get :: "json \<Rightarrow> nat \<Rightarrow> exn + http_response"
  raise_for_status :: "http_response \<Rightarrow> exn + unit"
  getenv :: "string \<Rightarrow> string option"
  py_int :: "string \<Rightarrow> exn + int"

text \<open>
  The calls a function makes to transformers, PIL and requests, in order, with their
  arguments.
\<close>

datatype event =
    Pipeline string string int
  | Image_open bytes
  | Image_convert image string
  | Classifier_call image
  | Requests_get json nat

text \<open>
  The global \<open>classifier\<close> (\<open>None\<close> until \<open>load_model\<close> sets it), and the history of
  library calls made so far, which the program does not hold: it is there to state
  what a handler calls and how often.
\<close>

record state =
  classifier :: "pipeline_fn option"
  calls :: "event list"

definition initial_state :: state where
  "initial_state = \<lparr>classifier = None, calls = []\<rparr>"

definition call :: "event \<Rightarrow> state \<Rightarrow> state" where
  "call ev st = st\<lparr>calls := calls st @ [ev]\<rparr>"

subsection \<open>Python's \<open>in\<close> and subscription on a parsed JSON value\<close>

definition type_name :: "json \<Rightarrow> string" where
  "type_name v =
     (case v of
        JNull \<Rightarrow> ''NoneType''
      | JBool _ \<Rightarrow> ''bool''
      | JInt _ \<Rightarrow> ''int''
      | JFloat _ \<Rightarrow> ''float''
      | JString _ \<Rightarrow> ''str''
      | JArray _ \<Rightarrow> ''list''
      | JObject _ \<Rightarrow> ''dict'')"

fun substring :: "string \<Rightarrow> string \<Rightarrow> bool" where
  "substring p [] = (p = [])"
| "substring p (c # cs) = (take (length p) (c # cs) = p \<or> substring p cs)"

text \<open>
  \<open>key in data\<close> for a string \<open>key\<close>: a key of a dict, an element of a list, a
  substring of a string, \<open>TypeError\<close> on the rest.
\<close>

definition contains :: "json \<Rightarrow> string \<Rightarrow> exn + bool" where
  "contains data key =
     (case data of
        JObject m \<Rightarrow> Inr (m key \<noteq> None)
      | JArray xs \<Rightarrow> Inr (JString key \<in> set xs)
      | JString s \<Rightarrow> Inr (substring key s)
      | _ \<Rightarrow> Inl (Exn ''TypeError''
                (''argument of type '' @ [CHR 0x27] @ type_name data @ [CHR 0x27]
                 @ '' is not iterable'')))"

text \<open>\<open>data[key]\<close> for a string \<open>key\<close>: only a dict can be indexed by a string.\<close>

definition subscript :: "json \<Rightarrow> string \<Rightarrow> exn + json" where
  "subscript data key =
     (case data of
        JObject m \<Rightarrow>
          (case m key of
             None \<Rightarrow> Inl (Exn ''KeyError'' ([CHR 0x27] @ key @ [CHR 0x27]))
           | Some v \<Rightarrow> Inr v)
      | JArray _ \<Rightarrow> Inl (Exn ''TypeError'' ''list indices must be integers or slices, not str'')
      | JString _ \<Rightarrow> Inl (Exn ''TypeError'' ''string indices must be integers'')
      | _ \<Rightarrow> Inl (Exn ''TypeError''
                ([CHR 0x27] @ type_name data @ [CHR 0x27] @ '' object is not subscriptable'')))"

subsection \<open>\<open>load_model\<close> and \<open>/health\<close>\<close>

text \<open>
  \<open>load_model\<close> (lines 39 to 56) calls \<open>pipeline\<close> once, for the CPU (device \<open>-1\<close>);
  it assigns the global and returns \<open>True\<close>, or catches the exception and returns
  \<open>False\<close>.
\<close>

definition load_model :: "env \<Rightarrow> state \<Rightarrow> string \<Rightarrow> bool \<times> state" where
  "load_model env st model_name =
     (let st1 = call (Pipeline ''image-classification'' model_name (- 1)) st
      in case pipeline env ''image-classification'' model_name (- 1) of
           Inr p \<Rightarrow> (True, st1\<lparr>classifier := Some p\<rparr>)
         | Inl e \<Rightarrow> (False, st1))"

definition health :: "state \<Rightarrow> response \<times> state" where
  "health st =
     ((Health_body \<lparr>status = ''ok'', model_loaded = (classifier st \<noteq> None)\<rparr>, 200), st)"

subsection \<open>Formatting the results\<close>

text \<open>
  Lines 97 to 114 of \<open>classify_image\<close>: the loop over \<open>results[:10]\<close> that appends to
  \<open>labels\<close>, and the dict that is returned.
\<close>

definition format_results :: "env \<Rightarrow> raw_result list \<Rightarrow> envelope" where
  "format_results env results =
     (let labels =
            foldl (\<lambda>labels result.
                     labels @ [\<lparr>description = label result,
                                label_entry.confidence = score result\<rparr>])
              [] (take 10 results)
      in \<lparr>labels = labels,
          colors = [],
          objects = take 5 labels,
          confidence = (if labels \<noteq> [] then label_entry.confidence (labels ! 0) else 0),
          source = ''local_transformers'',
          model = (case getenv env ''HF_MODEL'' of
                     None \<Rightarrow> ''google/vit-base-patch16-224''
                   | Some v \<Rightarrow> v)\<rparr>)"

text \<open>Lines 158 to 172 of \<open>classify_image_url\<close>: the same loop and dict, written again.\<close>

definition format_results_url :: "env \<Rightarrow> raw_result list \<Rightarrow> envelope" where
  "format_results_url env results =
     (let labels =
            foldl (\<lambda>labels result.
                     labels @ [\<lparr>description = label result,
                                label_entry.confidence = score result\<rparr>])
              [] (take 10 results)
      in \<lparr>labels = labels,
          colors = [],
          objects = take 5 labels,
          confidence = (if labels \<noteq> [] then label_entry.confidence (labels ! 0) else 0),
          source = ''local_transformers'',
          model = (case getenv env ''HF_MODEL'' of
                     None \<Rightarrow> ''google/vit-base-patch16-224''
                   | Some v \<Rightarrow> v)\<rparr>)"

subsection \<open>The handlers\<close>

text \<open>The \<open>except Exception as e\<close> branch of both handlers (lines 116 to 121, 174 to 179).\<close>

definition caught :: "exn \<Rightarrow> response" where
  "caught e = (Error_body \<lparr>error = str e, labels = []\<rparr>, 500)"

text \<open>\<open>classify_image\<close>, lines 67 to 121.\<close>

definition classify_image :: "env \<Rightarrow> state \<Rightarrow> upload_request \<Rightarrow> response \<times> state" where
  "classify_image env st req =
     (case classifier st of
        None \<Rightarrow> ((Error_body \<lparr>error = ''Model not loaded'', labels = []\<rparr>, 500), st)
      | Some clf \<Rightarrow>
          (case request_files env (form req) of
             Inl e \<Rightarrow> (caught e, st)
           | Inr files \<Rightarrow>
  (case files ''image'' of
     None \<Rightarrow> ((Error_body \<lparr>error = ''No image file provided'', labels = []\<rparr>, 400), st)
   | Some image_file \<Rightarrow>
       (let st1 = call (Image_open image_file) st
        in case image_open env image_file of
             Inl e \<Rightarrow> (caught e, st1)
           | Inr img \<Rightarrow>
               (case (if mode img \<noteq> ''RGB''
                      then (convert env img ''RGB'', call (Image_convert img ''RGB'') st1)
                      else (Inr img, st1)) of
                  (Inl e, st2) \<Rightarrow> (caught e, st2)
                | (Inr img', st2) \<Rightarrow>
                    (let st3 = call (Classifier_call img') st2
                     in case clf img' of
                          Inl e \<Rightarrow> (caught e, st3)
                        | Inr results \<Rightarrow>
                            ((Envelope (format_results env results), 200), st3)))))))"

text \<open>\<open>classify_image_url\<close>, lines 124 to 179.\<close>

definition classify_image_url :: "env \<Rightarrow> state \<Rightarrow> url_request \<Rightarrow> response \<times> state" where
  "classify_image_url env st req =
     (case classifier st of
        None \<Rightarrow> ((Error_body \<lparr>error = ''Model not loaded'', labels = []\<rparr>, 500), st)
      | Some clf \<Rightarrow>
          (case get_json req of
             Inl e \<Rightarrow> (caught e, st)
           | Inr data \<Rightarrow>
               (case contains data ''url'' of
                  Inl e \<Rightarrow> (caught e, st)
                | Inr False \<Rightarrow>
                    ((Error_body \<lparr>error = ''No image URL provided'', labels = []\<rparr>, 400), st)
                | Inr True \<Rightarrow>
                    (case subscript data ''url'' of
                       Inl e \<Rightarrow> (caught e, st)
                     | Inr url \<Rightarrow>
                         (let st1 = call (Requests_get url 10) st
                          in case requests_get env url 10 of
                               Inl e \<Rightarrow> (caught e, st1)
                             | Inr response \<Rightarrow>
                                 (case raise_for_status env response of
                                    Inl e \<Rightarrow> (caught e, st1)
                                  | Inr _ \<Rightarrow>
  (let st2 = call (Image_open (content response)) st1
   in case image_open env (content response) of
        Inl e \<Rightarrow> (caught e, st2)
      | Inr img \<Rightarrow>
          (case (if mode img \<noteq> ''RGB''
                 then (convert env img ''RGB'', call (Image_convert img ''RGB'') st2)
                 else (Inr img, st2)) of
             (Inl e, st3) \<Rightarrow> (caught e, st3)
           | (Inr img', st3) \<Rightarrow>
               (let st4 = call (Classifier_call img') st3
                in case clf img' of
                     Inl e \<Rightarrow> (caught e, st4)
                   | Inr results \<Rightarrow>
                       ((Envelope (format_results_url env results), 200), st4))))))))))"

subsection \<open>The server and the start-up block\<close>

text \<open>Flask's dispatch of one request to its handler, and a run of requests in order.\<close>

definition handle :: "env \<Rightarrow> state \<Rightarrow> request \<Rightarrow> response \<times> state" where
  "handle env st r =
     (case r of
        Health \<Rightarrow> health st
      | Classify req \<Rightarrow> classify_image env st req
      | Classify_url req \<Rightarrow> classify_image_url env st req)"

fun serve :: "state \<Rightarrow> (env \<times> request) list \<Rightarrow> response list \<times> state" where
  "serve st [] = ([], st)"
| "serve st ((env, r) # rs) =
     (case handle env st r of
        (resp, st') \<Rightarrow> (case serve st' rs of (resps, st'') \<Rightarrow> (resp # resps, st'')))"

text \<open>
  How the start-up block (lines 181 to 198) ends: \<open>sys.exit\<close> with a code, an exception
  nothing catches, or \<open>app.run\<close> on a host and port.
\<close>

datatype outcome = Exit int | Uncaught exn | App_run string int

definition main :: "env \<Rightarrow> outcome \<times> state" where
  "main env =
     (let model_name = (case getenv env ''HF_MODEL'' of
                          None \<Rightarrow> ''google/vit-base-patch16-224''
                        | Some v \<Rightarrow> v)
      in case load_model env initial_state model_name of
           (False, st) \<Rightarrow> (Exit 1, st)
         | (True, st) \<Rightarrow>
             (case (case getenv env ''PYTHON_SERVICE_PORT'' of
                      None \<Rightarrow> Inr 5000
                    | Some s \<Rightarrow> py_int env s) of
                Inl e \<Rightarrow> (Uncaught e, st)
              | Inr port \<Rightarrow> (App_run ''0.0.0.0'' port, st)))"

subsection \<open>What the statements below speak of\<close>

text \<open>
  The value of \<open>os.getenv('HF_MODEL', 'google/vit-base-patch16-224')\<close>, which the
  source writes out at lines 113, 171 and 183.
\<close>

definition configured_model :: "env \<Rightarrow> string" where
  "configured_model env =
     (case getenv env ''HF_MODEL'' of None \<Rightarrow> ''google/vit-base-patch16-224'' | Some v \<Rightarrow> v)"

text \<open>
  The labels as the specification words them: the first \<open>min(10, length)\<close> entries of
  the raw list, each mapped to \<open>{description: label, confidence: score}\<close>.
\<close>

definition labels_spec :: "raw_result list \<Rightarrow> label_entry list" where
  "labels_spec raw =
     map (\<lambda>r. \<lparr>description = label r, label_entry.confidence = score r\<rparr>)
       (take (min 10 (length raw)) raw)"

text \<open>The library calls a handler added to the history of the state it started in.\<close>

definition new_calls :: "state \<Rightarrow> state \<Rightarrow> event list" where
  "new_calls st st' = drop (length (calls st)) (calls st')"


text \<open>
  Lines 86 to 94 and 148 to 155 without the history: what opening the bytes, converting
  the image when its mode is not \<open>'RGB'\<close> and calling the classifier produce, the
  exception of the first step that raises or the raw result list.
\<close>

definition decode_and_infer :: "env \<Rightarrow> pipeline_fn \<Rightarrow> bytes \<Rightarrow> exn + raw_result list" where
  "decode_and_infer env clf b =
     (case image_open env b of
        Inl e \<Rightarrow> Inl e
      | Inr img \<Rightarrow>
          (case (if mode img \<noteq> ''RGB'' then convert env img ''RGB'' else Inr img) of
             Inl e \<Rightarrow> Inl e
           | Inr img' \<Rightarrow> clf img'))"

subsection \<open>An example environment\<close>

text \<open>
  A classifier that returns three ranked labels and raises on an image with no pixels;
  a form parser that refuses a body of more than 1000 parts, as Werkzeug's does by
  default; an image library that knows three byte strings; a remote source with an
  image, an image the classifier rejects, a missing page and, for every other URL, a
  timeout.
\<close>

definition demo_results :: "raw_result list" where
  "demo_results =
     [\<lparr>label = ''golden retriever'', score = 9 / 10\<rparr>,
      \<lparr>label = ''Labrador retriever'', score = 1 / 20\<rparr>,
      \<lparr>label = ''tennis ball'', score = 1 / 100\<rparr>]"

definition demo_classifier :: pipeline_fn where
  "demo_classifier img =
     (if pixels img = [] then Inl (Exn ''RuntimeError'' ''empty input'')
      else Inr demo_results)"

definition demo_env :: env where
  "demo_env =
     \<lparr>pipeline = (\<lambda>task name device.
         if name = ''google/vit-base-patch16-224'' then Inr demo_classifier
         else Inl (Exn ''OSError'' ''no such model'')),
      request_files = (\<lambda>parts.
         if 1000 < length parts
         then Inl (Exn ''RequestEntityTooLarge'' ''413 Request Entity Too Large'')
         else Inr (map_of parts)),
      image_open = (\<lambda>b.
         if b = ''rgb'' then Inr \<lparr>mode = ''RGB'', pixels = [1, 2, 3]\<rparr>
         else if b = ''grey'' then Inr \<lparr>mode = ''L'', pixels = [7]\<rparr>
         else if b = ''blank'' then Inr \<lparr>mode = ''RGB'', pixels = []\<rparr>
         else Inl (Exn ''UnidentifiedImageError'' ''cannot identify image file'')),
      convert = (\<lambda>img m. Inr \<lparr>mode = m, pixels = pixels img @ pixels img @ pixels img\<rparr>),
      requests_get = (\<lambda>url timeout.
         if url = JString ''http://img.example/dog'' then Inr \<lparr>status_code = 200, content = ''grey''\<rparr>
         else if url = JString ''http://img.example/blank'' then Inr \<lparr>status_code = 200, content = ''blank''\<rparr>
         else if url = JString ''http://img.example/gone'' then Inr \<lparr>status_code = 404, content = []\<rparr>
         else Inl (Exn ''ConnectTimeout'' ''timed out'')),
      raise_for_status = (\<lambda>r.
         if 400 \<le> status_code r \<and> status_code r < 600
         then Inl (Exn ''HTTPError'' ''404 Client Error'') else Inr ()),
      getenv = (\<lambda>name. None),
      py_int = (\<lambda>s. Inl (Exn ''ValueError'' ''invalid literal for int()''))\<rparr>"

definition failing_env :: env where
  "failing_env = demo_env\<lparr>getenv := (\<lambda>name. if name = ''HF_MODEL'' then Some ''no/model'' else None)\<rparr>"

definition ready :: state where
  "ready = \<lparr>classifier = Some demo_classifier, calls = []\<rparr>"

definition url_body :: "string \<Rightarrow> json" where
  "url_body u = JObject (\<lambda>k. if k = ''url'' then Some (JString u) else None)"

definition upload :: "bytes \<Rightarrow> upload_request" where
  "upload b = \<lparr>form = [(''image'', b)]\<rparr>"

definition no_upload :: upload_request where
  "no_upload = \<lparr>form = []\<rparr>"

definition many_fields :: upload_request where
  "many_fields = \<lparr>form = replicate 1001 (''note'', ''x'')\<rparr>"

definition url_post :: "string \<Rightarrow> url_request" where
  "url_post u = \<lparr>get_json = Inr (url_body u)\<rparr>"

section \<open>Properties\<close>

lemmas demo_defs = demo_env_def demo_classifier_def demo_results_def ready_def url_body_def
  initial_state_def failing_env_def upload_def no_upload_def many_fields_def url_post_def

lemmas handler_defs = classify_image_def classify_image_url_def caught_def call_def Let_def
  contains_def subscript_def format_results_def format_results_url_def

subsection \<open>The formatting loop\<close>

lemma foldl_append_map: "foldl (\<lambda>acc x. acc @ [f x]) acc xs = acc @ map f xs"
  by (induction xs arbitrary: acc) simp_all

lemma take_min_length: "take (min n (length xs)) xs = take n xs"
  by (simp add: min_def)

lemma labels_format_results:
  "labels (format_results env raw) = labels_spec raw"
  by (simp add: format_results_def labels_spec_def foldl_append_map Let_def take_min_length)

lemma format_results_url_eq: "format_results_url env raw = format_results env raw"
  by (simp add: format_results_url_def format_results_def)

lemma format_results_invariant:
  "length (labels (format_results env raw)) \<le> 10 \<and>
   objects (format_results env raw) = take 5 (labels (format_results env raw)) \<and>
   envelope.confidence (format_results env raw) =
     (if labels (format_results env raw) = [] then 0
      else label_entry.confidence (labels (format_results env raw) ! 0))"
  by (simp add: format_results_def foldl_append_map Let_def)

lemma confidence_labels_spec:
  "map label_entry.confidence (labels_spec raw) = take 10 (map score raw)"
  by (simp add: labels_spec_def take_min_length take_map comp_def)

lemma sorted_wrt_take_desc:
  "sorted_wrt (\<lambda>a b. b \<le> (a::real)) xs \<Longrightarrow> sorted_wrt (\<lambda>a b. b \<le> a) (take n xs)"
  by (rule sorted_wrt_take)

subsection \<open>The history\<close>


lemma classifier_call [simp]: "classifier (call ev st) = classifier st"
  by (simp add: call_def)

lemma calls_call [simp]: "calls (call ev st) = calls st @ [ev]"
  by (simp add: call_def)

lemma new_calls_append [simp]: "calls st' = calls st @ evs \<Longrightarrow> new_calls st st' = evs"
  by (simp add: new_calls_def)

subsection \<open>What the handlers return and what they call\<close>

lemma classify_image_200:
  "classify_image env st req = ((b, 200), st') \<Longrightarrow> \<exists>raw. b = Envelope (format_results env raw)"
  by (auto simp: classify_image_def caught_def Let_def
      split: option.splits sum.splits if_splits prod.splits)

lemma classify_image_url_200:
  "classify_image_url env st req = ((b, 200), st') \<Longrightarrow> \<exists>raw. b = Envelope (format_results env raw)"
  by (auto simp: classify_image_url_def caught_def Let_def format_results_url_eq
      split: option.splits sum.splits if_splits prod.splits bool.splits)

lemma classify_image_response:
  assumes "classifier st = Some clf" and "request_files env (form req) = Inr fs"
    and "fs ''image'' = Some b"
  shows "fst (classify_image env st req) =
           (case decode_and_infer env clf b of
              Inl e \<Rightarrow> (Error_body \<lparr>error = str e, labels = []\<rparr>, 500)
            | Inr raw \<Rightarrow> (Envelope (format_results env raw), 200))"
  using assms
  by (simp add: classify_image_def decode_and_infer_def caught_def Let_def
      split: sum.splits)

lemma classify_image_url_response:
  assumes "classifier st = Some clf" and "get_json req = Inr (JObject m)"
    and "m ''url'' = Some u" and "requests_get env u 10 = Inr r"
    and "raise_for_status env r = Inr ()"
  shows "fst (classify_image_url env st req) =
           (case decode_and_infer env clf (content r) of
              Inl e \<Rightarrow> (Error_body \<lparr>error = str e, labels = []\<rparr>, 500)
            | Inr raw \<Rightarrow> (Envelope (format_results_url env raw), 200))"
  using assms
  by (simp add: classify_image_url_def decode_and_infer_def caught_def Let_def
      contains_def subscript_def split: sum.splits)




subsection \<open>The handlers leave the global alone\<close>

lemma classify_image_classifier:
  "classifier (snd (classify_image env st req)) = classifier st"
  by (simp add: classify_image_def Let_def split: option.splits sum.splits prod.splits)

lemma classify_image_url_classifier:
  "classifier (snd (classify_image_url env st req)) = classifier st"
  by (simp add: classify_image_url_def Let_def
      split: option.splits sum.splits prod.splits bool.splits)

lemma handle_classifier: "classifier (snd (handle env st r)) = classifier st"
  by (cases r)
    (simp_all add: handle_def health_def classify_image_classifier classify_image_url_classifier)

lemma serve_classifier: "serve st rs = (resps, st') \<Longrightarrow> classifier st' = classifier st"
proof (induction st rs arbitrary: resps st' rule: serve.induct)
  case (1 st)
  then show ?case by simp
next
  case (2 st env r rs)
  obtain resp st1 where h: "handle env st r = (resp, st1)"
    by (cases "handle env st r")
  obtain resps1 st2 where s: "serve st1 rs = (resps1, st2)"
    by (cases "serve st1 rs")
  from "2.prems" h s have "st' = st2" by simp
  moreover have "classifier st2 = classifier st1"
    using "2.IH" [OF h [symmetric] s] .
  moreover have "classifier st1 = classifier st"
    using handle_classifier [of env st r] h by simp
  ultimately show ?case by simp
qed

lemma serve_health:
  "serve st rs = (resps, st') \<Longrightarrow> i < length rs \<Longrightarrow> snd (rs ! i) = Health \<Longrightarrow>
   resps ! i = (Health_body \<lparr>status = ''ok'', model_loaded = (classifier st \<noteq> None)\<rparr>, 200)"
proof (induction st rs arbitrary: resps st' i rule: serve.induct)
  case (1 st)
  then show ?case by simp
next
  case (2 st env r rs)
  obtain resp st1 where h: "handle env st r = (resp, st1)"
    by (cases "handle env st r")
  obtain resps1 st2 where s: "serve st1 rs = (resps1, st2)"
    by (cases "serve st1 rs")
  from "2.prems"(1) h s have r: "resps = resp # resps1" by simp
  have c: "classifier st1 = classifier st"
    using handle_classifier [of env st r] h by simp
  show ?case
  proof (cases i)
    case 0
    with "2.prems"(3) have "r = Health" by simp
    with h have "resp = (Health_body \<lparr>status = ''ok'', model_loaded = (classifier st \<noteq> None)\<rparr>, 200)"
      by (auto simp: handle_def health_def)
    with r 0 show ?thesis by simp
  next
    case (Suc j)
    with "2.prems" have "j < length rs" and "snd (rs ! j) = Health" by simp_all
    then have "resps1 ! j =
        (Health_body \<lparr>status = ''ok'', model_loaded = (classifier st1 \<noteq> None)\<rparr>, 200)"
      using "2.IH" [OF h [symmetric] s] by simp
    with r Suc c show ?thesis by simp
  qed
qed

section \<open>The claims\<close>

text \<open>
  C1. Every response with status 200 of \<open>/classify\<close> and of \<open>/classify_url\<close> is an
  envelope whose \<open>labels\<close> has at most 10 entries, whose \<open>objects\<close> is
  \<open>labels[0:5]\<close> (a prefix of at most 5 entries), and whose \<open>confidence\<close> is the
  confidence of the first label, or 0 when there is no label.
\<close>

theorem envelope_invariant:
  assumes "classify_image env st req = ((b, 200), st') \<or>
           classify_image_url env st ureq = ((b, 200), st')"
  shows "\<exists>e. b = Envelope e \<and>
             length (labels e) \<le> 10 \<and>
             objects e = take 5 (labels e) \<and>
             length (objects e) \<le> 5 \<and>
             envelope.confidence e =
               (if labels e = [] then 0 else label_entry.confidence (labels e ! 0))"
proof -
  from assms obtain raw where b: "b = Envelope (format_results env raw)"
    using classify_image_200 classify_image_url_200 by blast
  have "length (objects (format_results env raw)) \<le> 5"
    using format_results_invariant [of env raw] by simp
  with b format_results_invariant [of env raw] show ?thesis
    by blast
qed

theorem envelope_invariant_witness:
  "fst (classify_image demo_env ready (upload ''grey'')) =
     (Envelope (format_results demo_env demo_results), 200) \<and>
   (\<exists>e. Envelope (format_results demo_env demo_results) = Envelope e \<and>
        length (labels e) \<le> 10 \<and>
        objects e = take 5 (labels e) \<and>
        length (objects e) \<le> 5 \<and>
        envelope.confidence e =
          (if labels e = [] then 0 else label_entry.confidence (labels e ! 0)))"
proof -
  have f: "fst (classify_image demo_env ready (upload ''grey'')) =
      (Envelope (format_results demo_env demo_results), 200)"
    by (simp add: handler_defs demo_defs)
  then have h: "classify_image demo_env ready (upload ''grey'') =
      ((Envelope (format_results demo_env demo_results), 200),
       snd (classify_image demo_env ready (upload ''grey'')))"
    by (simp add: prod_eq_iff)
  from envelope_invariant [OF disjI1 [OF h]] f show ?thesis
    by blast
qed

text \<open>
  C2. While the global \<open>classifier\<close> is \<open>None\<close>, both endpoints answer 500 with
  \<open>{error: 'Model not loaded', labels: []}\<close>, whatever the request holds, and call no
  library: the state is returned as it was.
\<close>

theorem model_not_loaded:
  assumes "classifier st = None"
  shows "classify_image env st req =
           ((Error_body \<lparr>error = ''Model not loaded'', labels = []\<rparr>, 500), st) \<and>
         classify_image_url env st ureq =
           ((Error_body \<lparr>error = ''Model not loaded'', labels = []\<rparr>, 500), st) \<and>
         error \<lparr>error = ''Model not loaded'', labels = []\<rparr> \<noteq> []"
  using assms by (simp add: classify_image_def classify_image_url_def)

theorem model_not_loaded_witness:
  "classifier initial_state = None \<and>
   classify_image demo_env initial_state (upload ''grey'') =
     ((Error_body \<lparr>error = ''Model not loaded'', labels = []\<rparr>, 500), initial_state) \<and>
   classify_image_url demo_env initial_state (url_post ''http://img.example/dog'') =
     ((Error_body \<lparr>error = ''Model not loaded'', labels = []\<rparr>, 500), initial_state)"
  using model_not_loaded [where st = initial_state and env = demo_env
      and req = "upload ''grey''" and ureq = "url_post ''http://img.example/dog''"]
  by (simp add: initial_state_def)

text \<open>
  C3, as amended. With the model loaded, a \<open>/classify\<close> request whose
  \<open>request.files\<close> can be read and holds no file named \<open>image\<close>, and a
  \<open>/classify_url\<close> request whose body is a JSON object with no key \<open>url\<close>, are
  answered 400 with an error text and \<open>labels: []\<close>. A \<open>/classify\<close> request on which
  reading \<open>request.files\<close> raises is answered 500 with the text of the exception. In
  all three cases the state comes back unchanged, so the history has no new call: no
  inference is attempted.
\<close>

theorem missing_field:
  assumes "classifier st = Some clf"
  shows "(\<forall>fs. request_files env (form req) = Inr fs \<and> fs ''image'' = None \<longrightarrow>
            classify_image env st req =
              ((Error_body \<lparr>error = ''No image file provided'', labels = []\<rparr>, 400), st)) \<and>
         (\<forall>e. request_files env (form req) = Inl e \<longrightarrow>
            classify_image env st req =
              ((Error_body \<lparr>error = str e, labels = []\<rparr>, 500), st)) \<and>
         (\<forall>m. get_json ureq = Inr (JObject m) \<and> m ''url'' = None \<longrightarrow>
            classify_image_url env st ureq =
              ((Error_body \<lparr>error = ''No image URL provided'', labels = []\<rparr>, 400), st))"
  using assms
  by (simp add: classify_image_def classify_image_url_def contains_def caught_def)

theorem missing_field_witness:
  "classifier ready = Some demo_classifier \<and>
   request_files demo_env (form no_upload) = Inr (map_of []) \<and>
   classify_image demo_env ready no_upload =
     ((Error_body \<lparr>error = ''No image file provided'', labels = []\<rparr>, 400), ready) \<and>
   request_files demo_env (form many_fields) =
     Inl (Exn ''RequestEntityTooLarge'' ''413 Request Entity Too Large'') \<and>
   classify_image demo_env ready many_fields =
     ((Error_body \<lparr>error = ''413 Request Entity Too Large'', labels = []\<rparr>, 500), ready) \<and>
   get_json \<lparr>get_json = Inr (JObject (\<lambda>k. None))\<rparr> = Inr (JObject (\<lambda>k. None)) \<and>
   classify_image_url demo_env ready \<lparr>get_json = Inr (JObject (\<lambda>k. None))\<rparr> =
     ((Error_body \<lparr>error = ''No image URL provided'', labels = []\<rparr>, 400), ready)"
proof -
  have c: "classifier ready = Some demo_classifier"
    by (simp add: ready_def)
  have n: "request_files demo_env (form no_upload) = Inr (map_of [])"
    by (simp add: demo_env_def no_upload_def)
  have t: "request_files demo_env (form many_fields) =
      Inl (Exn ''RequestEntityTooLarge'' ''413 Request Entity Too Large'')"
    by (simp add: demo_env_def many_fields_def)
  from missing_field [OF c, where env = demo_env and req = no_upload
      and ureq = "\<lparr>get_json = Inr (JObject (\<lambda>k. None))\<rparr>"] n
  have a: "classify_image demo_env ready no_upload =
      ((Error_body \<lparr>error = ''No image file provided'', labels = []\<rparr>, 400), ready)"
    and u: "classify_image_url demo_env ready \<lparr>get_json = Inr (JObject (\<lambda>k. None))\<rparr> =
      ((Error_body \<lparr>error = ''No image URL provided'', labels = []\<rparr>, 400), ready)"
    by simp_all
  from missing_field [OF c, where env = demo_env and req = many_fields] t
  have b: "classify_image demo_env ready many_fields =
      ((Error_body \<lparr>error = ''413 Request Entity Too Large'', labels = []\<rparr>, 500), ready)"
    by simp
  from c n a t b u show ?thesis by simp
qed

text \<open>
  The claim as first stated, 400 for every \<open>/classify\<close> request whose form has no
  field \<open>image\<close>, fails on a form of 1001 fields, none of them named \<open>image\<close>: the
  parser behind \<open>request.files\<close> refuses a body of more than 1000 parts, the exception
  is raised inside the \<open>try\<close>, and the answer is 500.
\<close>

theorem many_fields_counterexample:
  "classifier ready = Some demo_classifier \<and>
   length (form many_fields) = 1001 \<and>
   ''image'' \<notin> fst ` set (form many_fields) \<and>
   classify_image demo_env ready many_fields =
     ((Error_body \<lparr>error = ''413 Request Entity Too Large'', labels = []\<rparr>, 500), ready)"
  by (simp add: classify_image_def caught_def ready_def demo_env_def many_fields_def)

text \<open>
  C4. With the model loaded, when opening the bytes, converting the image or the
  classifier raises \<open>e\<close>, either endpoint answers 500 with
  \<open>{error: str(e), labels: []}\<close>: the text of the exception itself.
\<close>

theorem decode_or_inference_error:
  assumes "classifier st = Some clf"
  shows "(request_files env (form req) = Inr fs \<and> fs ''image'' = Some b \<and>
          decode_and_infer env clf b = Inl e \<longrightarrow>
            fst (classify_image env st req) =
              (Error_body \<lparr>error = str e, labels = []\<rparr>, 500)) \<and>
         (get_json ureq = Inr (JObject m) \<and> m ''url'' = Some u \<and>
          requests_get env u 10 = Inr r \<and> raise_for_status env r = Inr () \<and>
          decode_and_infer env clf (content r) = Inl e \<longrightarrow>
            fst (classify_image_url env st ureq) =
              (Error_body \<lparr>error = str e, labels = []\<rparr>, 500))"
proof (intro conjI impI)
  assume "request_files env (form req) = Inr fs \<and> fs ''image'' = Some b \<and>
          decode_and_infer env clf b = Inl e"
  then show "fst (classify_image env st req) = (Error_body \<lparr>error = str e, labels = []\<rparr>, 500)"
    using classify_image_response [OF assms, where env = env and req = req and fs = fs and b = b]
    by simp
next
  assume h: "get_json ureq = Inr (JObject m) \<and> m ''url'' = Some u \<and>
          requests_get env u 10 = Inr r \<and> raise_for_status env r = Inr () \<and>
          decode_and_infer env clf (content r) = Inl e"
  then show "fst (classify_image_url env st ureq) = (Error_body \<lparr>error = str e, labels = []\<rparr>, 500)"
    using classify_image_url_response [OF assms, of ureq m u env r] by simp
qed

theorem decode_or_inference_error_witness:
  "classifier ready = Some demo_classifier \<and>
   decode_and_infer demo_env demo_classifier ''blank'' = Inl (Exn ''RuntimeError'' ''empty input'') \<and>
   fst (classify_image demo_env ready (upload ''blank'')) =
     (Error_body \<lparr>error = ''empty input'', labels = []\<rparr>, 500) \<and>
   fst (classify_image_url demo_env ready (url_post ''http://img.example/blank'')) =
     (Error_body \<lparr>error = ''empty input'', labels = []\<rparr>, 500)"
  using decode_or_inference_error [where st = ready and clf = demo_classifier
      and req = "upload ''blank''" and fs = "map_of [(''image'', ''blank'')]"
      and b = "''blank''" and env = demo_env
      and e = "Exn ''RuntimeError'' ''empty input''"
      and ureq = "url_post ''http://img.example/blank''"
      and m = "\<lambda>k. if k = ''url'' then Some (JString ''http://img.example/blank'') else None"
      and u = "JString ''http://img.example/blank''"
      and r = "\<lparr>status_code = 200, content = ''blank''\<rparr>"]
  by (simp add: decode_and_infer_def demo_defs)



text \<open>
  C6. The formatting of \<open>/classify_url\<close> is that of \<open>/classify\<close>; its \<open>labels\<close>
  are the first \<open>min(10, length)\<close> raw entries mapped in order; when the raw scores are
  in descending order, so are the confidences; the envelope is a function of the raw list
  and of \<open>HF_MODEL\<close> alone; and each endpoint answers 200 with that envelope of the raw
  list the classifier returned.
\<close>

theorem formatting_is_one_function:
  "format_results_url env raw = format_results env raw \<and>
   labels (format_results env raw) = labels_spec raw \<and>
   (sorted_wrt (\<lambda>a b. b \<le> a) (map score raw) \<longrightarrow>
      sorted_wrt (\<lambda>a b. b \<le> a)
        (map label_entry.confidence (labels (format_results env raw)))) \<and>
   (getenv env' ''HF_MODEL'' = getenv env ''HF_MODEL'' \<longrightarrow>
      format_results env' raw = format_results env raw) \<and>
   (classifier st = Some clf \<and> request_files env (form req) = Inr fs \<and>
    fs ''image'' = Some b \<and> decode_and_infer env clf b = Inr raw \<longrightarrow>
      fst (classify_image env st req) = (Envelope (format_results env raw), 200)) \<and>
   (classifier st = Some clf \<and> get_json ureq = Inr (JObject m) \<and> m ''url'' = Some u \<and>
    requests_get env u 10 = Inr r \<and> raise_for_status env r = Inr () \<and>
    decode_and_infer env clf (content r) = Inr raw \<longrightarrow>
      fst (classify_image_url env st ureq) = (Envelope (format_results env raw), 200))"
proof (intro conjI impI)
  show "format_results_url env raw = format_results env raw"
    by (rule format_results_url_eq)
  show "labels (format_results env raw) = labels_spec raw"
    by (rule labels_format_results)
  show "sorted_wrt (\<lambda>a b. b \<le> a) (map label_entry.confidence (labels (format_results env raw)))"
    if "sorted_wrt (\<lambda>a b. b \<le> a) (map score raw)"
    using that by (simp add: labels_format_results confidence_labels_spec sorted_wrt_take_desc)
  show "format_results env' raw = format_results env raw"
    if "getenv env' ''HF_MODEL'' = getenv env ''HF_MODEL''"
    using that by (simp add: format_results_def)
  show "fst (classify_image env st req) = (Envelope (format_results env raw), 200)"
    if "classifier st = Some clf \<and> request_files env (form req) = Inr fs \<and>
        fs ''image'' = Some b \<and> decode_and_infer env clf b = Inr raw"
    using that classify_image_response [where st = st and clf = clf and env = env and req = req
        and fs = fs and b = b]
    by simp
  show "fst (classify_image_url env st ureq) = (Envelope (format_results env raw), 200)"
    if "classifier st = Some clf \<and> get_json ureq = Inr (JObject m) \<and> m ''url'' = Some u \<and>
        requests_get env u 10 = Inr r \<and> raise_for_status env r = Inr () \<and>
        decode_and_infer env clf (content r) = Inr raw"
    using that classify_image_url_response [of st clf ureq m u env r]
    by (simp add: format_results_url_eq)
qed

theorem formatting_is_one_function_witness:
  "sorted_wrt (\<lambda>a b. b \<le> a) (map score demo_results) \<and>
   sorted_wrt (\<lambda>a b. b \<le> a)
     (map label_entry.confidence (labels (format_results demo_env demo_results))) \<and>
   labels (format_results demo_env demo_results) = labels_spec demo_results \<and>
   fst (classify_image demo_env ready (upload ''rgb'')) =
     (Envelope (format_results demo_env demo_results), 200) \<and>
   fst (classify_image_url demo_env ready (url_post ''http://img.example/dog'')) =
     (Envelope (format_results demo_env demo_results), 200)"
proof -
  let ?m = "\<lambda>k. if k = ''url'' then Some (JString ''http://img.example/dog'') else None"
  let ?r = "\<lparr>status_code = 200, content = ''grey''\<rparr>"
  have s: "sorted_wrt (\<lambda>a b. b \<le> a) (map score demo_results)"
    by (simp add: demo_results_def)
  have c: "classifier ready = Some demo_classifier"
    by (simp add: ready_def)
  have f: "request_files demo_env (form (upload ''rgb'')) = Inr (map_of [(''image'', ''rgb'')])"
    and i: "map_of [(''image'', ''rgb'')] ''image'' = Some ''rgb''"
    by (simp_all add: upload_def demo_env_def)
  have j: "get_json (url_post ''http://img.example/dog'') = Inr (JObject ?m)"
    and k: "?m ''url'' = Some (JString ''http://img.example/dog'')"
    by (simp_all add: url_post_def url_body_def)
  have d1: "decode_and_infer demo_env demo_classifier ''rgb'' = Inr demo_results"
    by (simp add: decode_and_infer_def demo_env_def demo_classifier_def)
  have d2: "decode_and_infer demo_env demo_classifier (content ?r) = Inr demo_results"
    by (simp add: decode_and_infer_def demo_env_def demo_classifier_def)
  have g: "requests_get demo_env (JString ''http://img.example/dog'') 10 = Inr ?r"
    by (simp add: demo_env_def)
  have rs: "raise_for_status demo_env ?r = Inr ()"
    by (simp add: demo_env_def)
  from formatting_is_one_function [where env = demo_env and raw = demo_results
      and env' = demo_env and st = ready and clf = demo_classifier
      and req = "upload ''rgb''" and fs = "map_of [(''image'', ''rgb'')]" and b = "''rgb''"
      and ureq = "url_post ''http://img.example/dog''" and m = ?m
      and u = "JString ''http://img.example/dog''" and r = ?r] s c f i j k d1 d2 g rs
  show ?thesis
    by blast
qed



text \<open>
  C8. When \<open>pipeline\<close> raises for the configured model, the start-up block ends in
  \<open>sys.exit(1)\<close> and never reaches \<open>app.run\<close>, after one call of \<open>pipeline\<close>, for that
  model (no retry, no other model). \<open>load_model\<close> returns \<open>True\<close> exactly when
  \<open>pipeline\<close> returned and the global holds what it returned; when it returns
  \<open>False\<close> the global is as before; either way it calls \<open>pipeline\<close> once.
\<close>

theorem startup_failure:
  "(pipeline env ''image-classification'' (configured_model env) (- 1) = Inl e \<longrightarrow>
      main env =
        (Exit 1,
         \<lparr>classifier = None,
          calls = [Pipeline ''image-classification'' (configured_model env) (- 1)]\<rparr>)) \<and>
   (fst (load_model env st name) \<longleftrightarrow>
      (\<exists>p. pipeline env ''image-classification'' name (- 1) = Inr p \<and>
           classifier (snd (load_model env st name)) = Some p)) \<and>
   (\<not> fst (load_model env st name) \<longrightarrow>
      classifier (snd (load_model env st name)) = classifier st) \<and>
   calls (snd (load_model env st name)) =
     calls st @ [Pipeline ''image-classification'' name (- 1)]"
  by (auto simp: main_def load_model_def configured_model_def initial_state_def call_def Let_def
      split: sum.splits option.splits)

theorem startup_failure_witness:
  "pipeline failing_env ''image-classification'' (configured_model failing_env) (- 1) =
     Inl (Exn ''OSError'' ''no such model'') \<and>
   main failing_env =
     (Exit 1, \<lparr>classifier = None, calls = [Pipeline ''image-classification'' ''no/model'' (- 1)]\<rparr>) \<and>
   fst (load_model demo_env initial_state ''google/vit-base-patch16-224'') \<and>
   classifier (snd (load_model demo_env initial_state ''google/vit-base-patch16-224'')) =
     Some demo_classifier"
proof -
  have m: "configured_model failing_env = ''no/model''"
    by (simp add: configured_model_def failing_env_def)
  have p: "pipeline failing_env ''image-classification'' (configured_model failing_env) (- 1) =
      Inl (Exn ''OSError'' ''no such model'')"
    by (simp add: m) (simp add: failing_env_def demo_env_def)
  have q: "pipeline demo_env ''image-classification'' ''google/vit-base-patch16-224'' (- 1) =
      Inr demo_classifier"
    by (simp add: demo_env_def)
  have f: "fst (load_model demo_env initial_state ''google/vit-base-patch16-224'')"
    by (simp add: load_model_def q)
  from startup_failure [where env = failing_env and e = "Exn ''OSError'' ''no such model''"
      and st = initial_state and name = "''no/model''"] p m
  have a: "main failing_env =
     (Exit 1, \<lparr>classifier = None, calls = [Pipeline ''image-classification'' ''no/model'' (- 1)]\<rparr>)"
    by simp
  from startup_failure [where env = demo_env and st = initial_state
      and name = "''google/vit-base-patch16-224''"] f q
  have b: "classifier (snd (load_model demo_env initial_state ''google/vit-base-patch16-224'')) =
     Some demo_classifier"
    by auto
  from p a f b show ?thesis by simp
qed

text \<open>
  C9. No handler changes the global \<open>classifier\<close>, so no run of requests does; after
  a \<open>load_model\<close> that returned \<open>True\<close> the global is set after every run, and every
  \<open>/health\<close> request of the run is answered \<open>model_loaded: true\<close>.
\<close>

theorem ready_is_permanent:
  "classifier (snd (handle env st r)) = classifier st \<and>
   (serve st rs = (resps, st') \<longrightarrow> classifier st' = classifier st) \<and>
   (load_model env st0 name = (True, st) \<and> serve st rs = (resps, st') \<longrightarrow>
      classifier st' \<noteq> None \<and>
      (\<forall>i < length rs. snd (rs ! i) = Health \<longrightarrow>
         resps ! i = (Health_body \<lparr>status = ''ok'', model_loaded = True\<rparr>, 200)))"
proof (intro conjI impI)
  show "classifier (snd (handle env st r)) = classifier st"
    by (rule handle_classifier)
  show "classifier st' = classifier st" if "serve st rs = (resps, st')"
    using that by (rule serve_classifier)
  assume h: "load_model env st0 name = (True, st) \<and> serve st rs = (resps, st')"
  then have l: "classifier st \<noteq> None"
    by (auto simp: load_model_def Let_def split: sum.splits)
  with h show "classifier st' \<noteq> None"
    using serve_classifier [of st rs resps st'] by simp
  show "\<forall>i < length rs. snd (rs ! i) = Health \<longrightarrow>
         resps ! i = (Health_body \<lparr>status = ''ok'', model_loaded = True\<rparr>, 200)"
    using h l serve_health [of st rs resps st'] by simp
qed

theorem ready_is_permanent_witness:
  "load_model demo_env initial_state ''google/vit-base-patch16-224'' =
     (True, \<lparr>classifier = Some demo_classifier,
             calls = [Pipeline ''image-classification'' ''google/vit-base-patch16-224'' (- 1)]\<rparr>) \<and>
   classifier (snd (serve
       \<lparr>classifier = Some demo_classifier,
        calls = [Pipeline ''image-classification'' ''google/vit-base-patch16-224'' (- 1)]\<rparr>
       [(demo_env, Health), (demo_env, Classify (upload ''junk'')), (demo_env, Health)])) \<noteq> None \<and>
   fst (serve
       \<lparr>classifier = Some demo_classifier,
        calls = [Pipeline ''image-classification'' ''google/vit-base-patch16-224'' (- 1)]\<rparr>
       [(demo_env, Health), (demo_env, Classify (upload ''junk'')), (demo_env, Health)]) ! 2 =
     (Health_body \<lparr>status = ''ok'', model_loaded = True\<rparr>, 200)"
proof -
  let ?st = "\<lparr>classifier = Some demo_classifier,
        calls = [Pipeline ''image-classification'' ''google/vit-base-patch16-224'' (- 1)]\<rparr>"
  let ?rs = "[(demo_env, Health), (demo_env, Classify (upload ''junk'')), (demo_env, Health)]"
  have l: "load_model demo_env initial_state ''google/vit-base-patch16-224'' = (True, ?st)"
    by (simp add: load_model_def demo_env_def initial_state_def call_def)
  have s: "serve ?st ?rs = (fst (serve ?st ?rs), snd (serve ?st ?rs))"
    by simp
  have n: "(2::nat) < length ?rs" and k: "snd (?rs ! 2) = Health"
    by simp_all
  from ready_is_permanent [where env = demo_env and st = ?st and r = Health and rs = ?rs
      and resps = "fst (serve ?st ?rs)" and st' = "snd (serve ?st ?rs)"
      and ?st0.0 = initial_state and name = "''google/vit-base-patch16-224''"] l s n k
  show ?thesis by blast
qed

text \<open>
  C10, as amended. With the model loaded, a \<open>/classify_url\<close> request whose
  \<open>get_json()\<close> raises (invalid JSON, wrong content type) is answered 500 with the text
  of the exception, and one whose body parses to \<open>null\<close>, a boolean or a number is
  answered 500. A body that parses to an array or a string is answered 400 when
  \<open>'url'\<close> is not an element, respectively a substring, of it, and 500 when it is. In
  none of these cases is a library called.
\<close>

theorem non_object_body:
  assumes "classifier st = Some clf"
  shows "(get_json ureq = Inl e \<longrightarrow>
            classify_image_url env st ureq =
              ((Error_body \<lparr>error = str e, labels = []\<rparr>, 500), st)) \<and>
         (get_json ureq = Inr data \<and>
          (data = JNull \<or> (\<exists>b. data = JBool b) \<or> (\<exists>i. data = JInt i) \<or> (\<exists>x. data = JFloat x)) \<longrightarrow>
            snd (fst (classify_image_url env st ureq)) = 500 \<and>
            snd (classify_image_url env st ureq) = st) \<and>
         (get_json ureq = Inr (JArray xs) \<longrightarrow>
            snd (fst (classify_image_url env st ureq)) =
              (if JString ''url'' \<in> set xs then 500 else 400) \<and>
            snd (classify_image_url env st ureq) = st) \<and>
         (get_json ureq = Inr (JString s) \<longrightarrow>
            snd (fst (classify_image_url env st ureq)) =
              (if substring ''url'' s then 500 else 400) \<and>
            snd (classify_image_url env st ureq) = st)"
  using assms
  by (auto simp: classify_image_url_def contains_def subscript_def caught_def)

theorem non_object_body_witness:
  "classifier ready = Some demo_classifier \<and>
   classify_image_url demo_env ready \<lparr>get_json = Inl (Exn ''BadRequest'' ''400 Bad Request'')\<rparr> =
     ((Error_body \<lparr>error = ''400 Bad Request'', labels = []\<rparr>, 500), ready) \<and>
   snd (fst (classify_image_url demo_env ready \<lparr>get_json = Inr JNull\<rparr>)) = 500 \<and>
   snd (fst (classify_image_url demo_env ready \<lparr>get_json = Inr (JArray [JString ''url''])\<rparr>)) = 500 \<and>
   snd (fst (classify_image_url demo_env ready \<lparr>get_json = Inr (JString ''no'')\<rparr>)) = 400"
  using non_object_body [where st = ready and clf = demo_classifier and env = demo_env
      and ureq = "\<lparr>get_json = Inl (Exn ''BadRequest'' ''400 Bad Request'')\<rparr>"
      and e = "Exn ''BadRequest'' ''400 Bad Request''"]
    non_object_body [where st = ready and clf = demo_classifier and env = demo_env
      and ureq = "\<lparr>get_json = Inr JNull\<rparr>" and data = JNull]
    non_object_body [where st = ready and clf = demo_classifier and env = demo_env
      and ureq = "\<lparr>get_json = Inr (JArray [JString ''url''])\<rparr>" and xs = "[JString ''url'']"]
    non_object_body [where st = ready and clf = demo_classifier and env = demo_env
      and ureq = "\<lparr>get_json = Inr (JString ''no'')\<rparr>" and s = "''no''"]
  by (simp add: ready_def)

text \<open>
  The claim as first stated, 500 for every body that is not a JSON object, fails on the
  empty array: \<open>'url' not in []\<close> holds, and the answer is 400.
\<close>

theorem empty_array_counterexample:
  "classifier ready = Some demo_classifier \<and>
   classify_image_url demo_env ready \<lparr>get_json = Inr (JArray [])\<rparr> =
     ((Error_body \<lparr>error = ''No image URL provided'', labels = []\<rparr>, 400), ready)"
  by (simp add: classify_image_url_def contains_def ready_def)

end
